theory Spec2Isabelle
  imports Complex_Main
begin

section \<open>Session cost ledger and circuit breaker of DUCK-E\<close>

text \<open>
  A shallow embedding of \<^verbatim>\<open>app/middleware/cost_protection.py\<close>: the class
  \<^verbatim>\<open>SessionCostTracker\<close> with its configuration, its three ledger dictionaries, the two
  circuit-breaker fields, the Prometheus metrics it updates and the Redis commands it
  issues.

  Conventions of the model.
  \<^item> Python \<^verbatim>\<open>float\<close> amounts (rates, costs, seconds) are real numbers: rounding, overflow
    and NaN of IEEE doubles are outside the model. Token counts are Python \<^verbatim>\<open>int\<close>, hence
    \<open>int\<close>, negative values included.
  \<^item> \<^verbatim>\<open>datetime.utcnow()\<close> is an input of every operation (seconds on a real time line);
    a \<^verbatim>\<open>timedelta\<close> is a number of seconds.
  \<^item> Whether a Redis command raises is an input of every operation as well.
  \<^item> Log lines are not modelled.
\<close>

subsection \<open>Configuration\<close>

record cost_config =
  enabled :: bool
  max_session_cost_usd :: real
  max_session_duration_minutes :: int
  max_total_cost_per_hour_usd :: real
  circuit_breaker_threshold_usd :: real
  circuit_breaker_reset_minutes :: int
  redis_url :: "string option"
  gpt5_input_cost_per_1m :: real
  gpt5_output_cost_per_1m :: real
  gpt5_mini_input_cost_per_1m :: real
  gpt5_mini_output_cost_per_1m :: real
  gpt_realtime_input_cost_per_1m :: real
  gpt_realtime_output_cost_per_1m :: real

text \<open>The field defaults of \<^verbatim>\<open>CostProtectionConfig\<close>.\<close>

definition default_config :: cost_config where
  "default_config =
     \<lparr> enabled = True,
       max_session_cost_usd = 5,
       max_session_duration_minutes = 30,
       max_total_cost_per_hour_usd = 50,
       circuit_breaker_threshold_usd = 100,
       circuit_breaker_reset_minutes = 60,
       redis_url = None,
       gpt5_input_cost_per_1m = 10,
       gpt5_output_cost_per_1m = 30,
       gpt5_mini_input_cost_per_1m = 3,
       gpt5_mini_output_cost_per_1m = 15,
       gpt_realtime_input_cost_per_1m = 100,
       gpt_realtime_output_cost_per_1m = 200 \<rparr>"

subsection \<open>Cost calculator\<close>

text \<open>
  \<^verbatim>\<open>SessionCostTracker.calculate_cost\<close>: the \<^verbatim>\<open>if/elif/else\<close> chain picks the two rates,
  the last branch being the one for a model name that matches none of the three.
\<close>

definition calculate_cost :: "cost_config \<Rightarrow> string \<Rightarrow> int \<Rightarrow> int \<Rightarrow> real" where
  "calculate_cost cfg model_name input_tokens output_tokens =
     (let (input_cost_per_1m, output_cost_per_1m) =
            (if model_name = ''gpt-5'' then
               (gpt5_input_cost_per_1m cfg, gpt5_output_cost_per_1m cfg)
             else if model_name = ''gpt-5-mini'' then
               (gpt5_mini_input_cost_per_1m cfg, gpt5_mini_output_cost_per_1m cfg)
             else if model_name = ''gpt-realtime'' then
               (gpt_realtime_input_cost_per_1m cfg, gpt_realtime_output_cost_per_1m cfg)
             else
               (gpt5_mini_input_cost_per_1m cfg, gpt5_mini_output_cost_per_1m cfg));
          input_cost = (real_of_int input_tokens / 1000000) * input_cost_per_1m;
          output_cost = (real_of_int output_tokens / 1000000) * output_cost_per_1m;
          total_cost = input_cost + output_cost
      in total_cost)"

subsection \<open>Tracker state\<close>

text \<open>
  One value of \<^verbatim>\<open>session_tokens\<close>: the dictionary \<^verbatim>\<open>{"input": n, "output": m}\<close>.
\<close>

record token_counts =
  tokens_input :: int
  tokens_output :: int

text \<open>
  The Redis commands the tracker issues, by key: \<^verbatim>\<open>hset\<close> with the names of the hash
  fields it writes, \<^verbatim>\<open>expire\<close> with the time to live, \<^verbatim>\<open>delete\<close>.
\<close>

datatype redis_cmd =
    HSet string "string list"
  | Expire string int
  | Delete string

text \<open>
  The inputs an operation reads from outside: the clock, and which Redis commands raise.
\<close>

record env =
  utcnow :: real
  redis_raises :: "redis_cmd \<Rightarrow> bool"

text \<open>
  The instance attributes of \<^verbatim>\<open>SessionCostTracker\<close>, followed by the module's five
  Prometheus metrics and by the list of Redis commands attempted so far.
  \<^verbatim>\<open>redis_client\<close> tells whether a client was given; \<^verbatim>\<open>session_tokens\<close> is a
  \<^verbatim>\<open>defaultdict\<close>, whose missing keys are read as zero counts by the operations below.
\<close>

record tracker =
  redis_client :: bool
  config :: cost_config
  session_costs :: "string \<rightharpoonup> real"
  session_tokens :: "string \<rightharpoonup> token_counts"
  session_start_times :: "string \<rightharpoonup> real"
  circuit_breaker_active :: bool
  circuit_breaker_reset_time :: "real option"
  total_cost_last_hour :: real
  api_cost_total :: "string \<times> string \<Rightarrow> real"
  active_sessions :: int
  session_duration :: "real list"
  token_usage :: "string \<times> string \<Rightarrow> real"
  budget_exceeded :: "string \<Rightarrow> nat"
  redis_calls :: "redis_cmd list"

text \<open>\<^verbatim>\<open>SessionCostTracker.__init__\<close>, with all metrics at their initial values.\<close>

definition init_tracker :: "bool \<Rightarrow> cost_config \<Rightarrow> tracker" where
  "init_tracker client cfg =
     \<lparr> redis_client = client,
       config = cfg,
       session_costs = Map.empty,
       session_tokens = Map.empty,
       session_start_times = Map.empty,
       circuit_breaker_active = False,
       circuit_breaker_reset_time = None,
       total_cost_last_hour = 0,
       api_cost_total = (\<lambda>_. 0),
       active_sessions = 0,
       session_duration = [],
       token_usage = (\<lambda>_. 0),
       budget_exceeded = (\<lambda>_. 0),
       redis_calls = [] \<rparr>"

subsection \<open>Library behaviour the tracker relies on\<close>

datatype py_error = ValueError

text \<open>
  \<^verbatim>\<open>Counter.inc(amount)\<close> of \<^verbatim>\<open>prometheus_client\<close> raises \<^verbatim>\<open>ValueError\<close> for a negative
  amount (counters only go up) and adds the amount to the labelled child otherwise.
\<close>

definition counter_inc :: "('l \<Rightarrow> real) \<Rightarrow> 'l \<Rightarrow> real \<Rightarrow> py_error + ('l \<Rightarrow> real)" where
  "counter_inc c l amount =
     (if amount < 0 then Inl ValueError else Inr (c(l := c l + amount)))"

text \<open>
  The body of one \<^verbatim>\<open>try: ... except Exception\<close> around Redis commands: the commands are
  attempted in order, the first that raises ends the block, and the exception is
  swallowed.
\<close>

fun redis_try :: "env \<Rightarrow> redis_cmd list \<Rightarrow> tracker \<Rightarrow> tracker" where
  "redis_try e [] s = s"
| "redis_try e (c # cs) s =
     (let s' = s\<lparr>redis_calls := redis_calls s @ [c]\<rparr>
      in if redis_raises e c then s' else redis_try e cs s')"

definition session_key :: "string \<Rightarrow> string" where
  "session_key session_id = ''session:'' @ session_id"

subsection \<open>Session lifecycle\<close>

definition start_session :: "env \<Rightarrow> string \<Rightarrow> tracker \<Rightarrow> tracker" where
  "start_session e session_id s =
     (let s1 = s\<lparr>session_start_times := (session_start_times s)(session_id \<mapsto> utcnow e)\<rparr>;
          s2 = s1\<lparr>session_costs := (session_costs s1)(session_id \<mapsto> 0)\<rparr>;
          s3 = s2\<lparr>active_sessions := active_sessions s2 + 1\<rparr>
      in if redis_client s3 then
           redis_try e
             [HSet (session_key session_id)
                [''start_time'', ''cost'', ''input_tokens'', ''output_tokens''],
              Expire (session_key session_id)
                (max_session_duration_minutes (config s3) * 60 + 300)]
             s3
         else s3)"

definition end_session :: "env \<Rightarrow> string \<Rightarrow> tracker \<Rightarrow> tracker" where
  "end_session e session_id s =
     (case session_start_times s session_id of
        None \<Rightarrow> s
      | Some started \<Rightarrow>
          (let duration = utcnow e - started;
               s1 = s\<lparr>session_duration := session_duration s @ [duration]\<rparr>;
               s2 = s1\<lparr>active_sessions := active_sessions s1 - 1\<rparr>;
               s3 = s2\<lparr>session_start_times := (session_start_times s2)(session_id := None)\<rparr>;
               s4 = s3\<lparr>session_costs := (session_costs s3)(session_id := None)\<rparr>;
               s5 = s4\<lparr>session_tokens := (session_tokens s4)(session_id := None)\<rparr>
           in if redis_client s5 then redis_try e [Delete (session_key session_id)] s5
              else s5))"

subsection \<open>Admission check\<close>

record budget_status =
  budget_ok :: bool
  remaining_budget_usd :: real
  remaining_duration_seconds :: real
  circuit_breaker_active_reported :: bool
  warnings :: "string list"

definition get_warnings :: "bool \<Rightarrow> bool \<Rightarrow> bool \<Rightarrow> string list" where
  "get_warnings b_ok d_ok cb_ok =
     (if \<not> b_ok then [''Session budget limit exceeded''] else [])
     @ (if \<not> d_ok then [''Session duration limit exceeded''] else [])
     @ (if \<not> cb_ok then [''System-wide circuit breaker is active''] else [])"

definition check_budget :: "env \<Rightarrow> string \<Rightarrow> real \<Rightarrow> tracker \<Rightarrow> budget_status \<times> tracker" where
  "check_budget e session_id current_cost s =
     (let cfg = config s;
          b_ok = (current_cost < max_session_cost_usd cfg);
          remaining_budget = max_session_cost_usd cfg - current_cost;
          max_duration_seconds = real_of_int (max_session_duration_minutes cfg * 60);
          (duration_ok, remaining_duration) =
            (case session_start_times s session_id of
               Some started \<Rightarrow>
                 (let duration = utcnow e - started
                  in (duration < max_duration_seconds, max_duration_seconds - duration))
             | None \<Rightarrow> (True, max_duration_seconds));
          circuit_breaker_ok = (\<not> circuit_breaker_active s);
          overall_ok = (b_ok \<and> duration_ok \<and> circuit_breaker_ok);
          s' = (if \<not> overall_ok then
                  s\<lparr>budget_exceeded :=
                      (budget_exceeded s)(session_id := budget_exceeded s session_id + 1)\<rparr>
                else s)
      in (\<lparr> budget_ok = overall_ok,
             remaining_budget_usd = max 0 remaining_budget,
             remaining_duration_seconds = max 0 remaining_duration,
             circuit_breaker_active_reported = circuit_breaker_active s,
             warnings = get_warnings b_ok duration_ok circuit_breaker_ok \<rparr>, s'))"

subsection \<open>Usage tracking\<close>

text \<open>
  The dictionary \<^verbatim>\<open>track_usage\<close> returns: its own six entries and, merged in, those of
  the budget status.
\<close>

record usage_result = budget_status +
  res_session_id :: string
  res_model :: string
  res_input_tokens :: int
  res_output_tokens :: int
  call_cost :: real
  session_cost :: real

text \<open>
  \<^verbatim>\<open>track_usage\<close>. The ledger is written before the metrics are updated, so when a
  counter raises the caller gets the exception and the tracker keeps the writes made so
  far; the second component of the result is the tracker as the call leaves it.
\<close>

definition track_usage ::
  "env \<Rightarrow> string \<Rightarrow> string \<Rightarrow> int \<Rightarrow> int \<Rightarrow> tracker \<Rightarrow> (py_error + usage_result) \<times> tracker" where
  "track_usage e session_id model_name input_tokens output_tokens s =
     (let cost = calculate_cost (config s) model_name input_tokens output_tokens;
          current_cost = (case session_costs s session_id of Some c \<Rightarrow> c | None \<Rightarrow> 0);
          new_cost = current_cost + cost;
          s1 = s\<lparr>session_costs := (session_costs s)(session_id \<mapsto> new_cost)\<rparr>;
          old = (case session_tokens s1 session_id of
                   Some t \<Rightarrow> t
                 | None \<Rightarrow> \<lparr>tokens_input = 0, tokens_output = 0\<rparr>);
          counts = \<lparr>tokens_input = tokens_input old + input_tokens,
                    tokens_output = tokens_output old + output_tokens\<rparr>;
          s2 = s1\<lparr>session_tokens := (session_tokens s1)(session_id \<mapsto> counts)\<rparr>
      in case counter_inc (api_cost_total s2) (model_name, session_id) cost of
           Inl err \<Rightarrow> (Inl err, s2)
         | Inr c1 \<Rightarrow>
        (let s3 = s2\<lparr>api_cost_total := c1\<rparr>
         in case counter_inc (token_usage s3) (model_name, ''input'') (real_of_int input_tokens) of
              Inl err \<Rightarrow> (Inl err, s3)
            | Inr c2 \<Rightarrow>
           (let s4 = s3\<lparr>token_usage := c2\<rparr>
            in case counter_inc (token_usage s4) (model_name, ''output'') (real_of_int output_tokens) of
                 Inl err \<Rightarrow> (Inl err, s4)
               | Inr c3 \<Rightarrow>
              (let s5 = s4\<lparr>token_usage := c3\<rparr>;
                   s6 = (if redis_client s5 then
                           redis_try e
                             [HSet (session_key session_id)
                                [''cost'', ''input_tokens'', ''output_tokens'']]
                             s5
                         else s5);
                   (st, s7) = check_budget e session_id new_cost s6
               in (Inr (budget_status.extend st
                          \<lparr> res_session_id = session_id,
                            res_model = model_name,
                            res_input_tokens = input_tokens,
                            res_output_tokens = output_tokens,
                            call_cost = cost,
                            session_cost = new_cost \<rparr>), s7)))))"

subsection \<open>Circuit breaker\<close>

definition activate_circuit_breaker :: "env \<Rightarrow> tracker \<Rightarrow> tracker" where
  "activate_circuit_breaker e s =
     s\<lparr>circuit_breaker_active := True,
       circuit_breaker_reset_time :=
         Some (utcnow e + real_of_int (circuit_breaker_reset_minutes (config s)) * 60)\<rparr>"

definition check_circuit_breaker :: "env \<Rightarrow> tracker \<Rightarrow> tracker" where
  "check_circuit_breaker e s =
     (case circuit_breaker_reset_time s of
        Some reset_time \<Rightarrow>
          (if circuit_breaker_active s then
             (if utcnow e \<ge> reset_time then
                s\<lparr>circuit_breaker_active := False, circuit_breaker_reset_time := None\<rparr>
              else s)
           else s)
      | None \<Rightarrow> s)"

subsection \<open>Histories of operations\<close>

text \<open>
  The operations a caller can invoke on the tracker, and the tracker after a history of
  them, each run with its own clock reading and Redis behaviour.
\<close>

datatype operation =
    StartSession string
  | EndSession string
  | TrackUsage string string int int
  | CheckBudget string real
  | ActivateCircuitBreaker
  | CheckCircuitBreaker

fun step :: "env \<times> operation \<Rightarrow> tracker \<Rightarrow> tracker" where
  "step (e, StartSession session_id) s = start_session e session_id s"
| "step (e, EndSession session_id) s = end_session e session_id s"
| "step (e, TrackUsage session_id model_name i k) s = snd (track_usage e session_id model_name i k s)"
| "step (e, CheckBudget session_id current_cost) s = snd (check_budget e session_id current_cost s)"
| "step (e, ActivateCircuitBreaker) s = activate_circuit_breaker e s"
| "step (e, CheckCircuitBreaker) s = check_circuit_breaker e s"

fun run :: "(env \<times> operation) list \<Rightarrow> tracker \<Rightarrow> tracker" where
  "run [] s = s"
| "run (x # xs) s = run xs (step x s)"

subsection \<open>Auxiliary notions for the statements\<close>

text \<open>Two Redis behaviours for concrete runs: every command succeeds, every command raises.\<close>

definition never_raises :: "redis_cmd \<Rightarrow> bool" where
  "never_raises c = False"

definition always_raises :: "redis_cmd \<Rightarrow> bool" where
  "always_raises c = True"

text \<open>The environment of a call made at time \<open>t\<close> while Redis answers.\<close>

definition at_time :: "real \<Rightarrow> env" where
  "at_time t = \<lparr>utcnow = t, redis_raises = never_raises\<rparr>"

text \<open>
  The value \<^verbatim>\<open>track_usage\<close> stores for the session: the recorded cost, or zero when the
  dictionary has no entry (\<^verbatim>\<open>session_costs.get(session_id, 0.0)\<close>), plus the cost of the call.
\<close>

definition new_session_cost :: "tracker \<Rightarrow> string \<Rightarrow> string \<Rightarrow> int \<Rightarrow> int \<Rightarrow> real" where
  "new_session_cost s sid m i k =
     (case session_costs s sid of Some c \<Rightarrow> c | None \<Rightarrow> 0) + calculate_cost (config s) m i k"

text \<open>The invariant of the circuit-breaker state: no reset time while the breaker is closed.\<close>

definition breaker_invariant :: "tracker \<Rightarrow> bool" where
  "breaker_invariant s = (\<not> circuit_breaker_active s \<longrightarrow> circuit_breaker_reset_time s = None)"

text \<open>An entry of a history is a \<^verbatim>\<open>track_usage\<close> call for a session other than the given one.\<close>

fun usage_by_other :: "string \<Rightarrow> env \<times> operation \<Rightarrow> bool" where
  "usage_by_other session_id (e, TrackUsage other model_name i k) = (other \<noteq> session_id)"
| "usage_by_other session_id (e, _) = False"

text \<open>A history with the \<^verbatim>\<open>track_usage\<close> calls of all other sessions removed.\<close>

fun without_others :: "string \<Rightarrow> (env \<times> operation) list \<Rightarrow> (env \<times> operation) list" where
  "without_others session_id [] = []"
| "without_others session_id (x # rest) =
     (if usage_by_other session_id x then without_others session_id rest
      else x # without_others session_id rest)"

text \<open>
  Two trackers agree on everything a call for the given session reads or writes in the
  ledger: the configuration, the session's cost and token entries, the start times and
  the circuit-breaker fields.
\<close>

definition same_for :: "string \<Rightarrow> tracker \<Rightarrow> tracker \<Rightarrow> bool" where
  "same_for session_id s t =
     (config s = config t
      \<and> session_costs s session_id = session_costs t session_id
      \<and> session_tokens s session_id = session_tokens t session_id
      \<and> session_start_times s = session_start_times t
      \<and> circuit_breaker_active s = circuit_breaker_active t
      \<and> circuit_breaker_reset_time s = circuit_breaker_reset_time t)"


text \<open>The entries \<^verbatim>\<open>budget_ok\<close> and \<^verbatim>\<open>session_cost\<close> of what a \<^verbatim>\<open>track_usage\<close> call gives back.\<close>

definition verdict :: "py_error + usage_result \<Rightarrow> py_error + bool" where
  "verdict r = map_sum id budget_ok r"

definition reported_session_cost :: "py_error + usage_result \<Rightarrow> py_error + real" where
  "reported_session_cost r = map_sum id session_cost r"

section \<open>Properties of the cost calculator\<close>

text \<open>
  Claim C2. For each of the three configured model names the cost of a call is
  \<open>input_tokens / 1000000\<close> times the model's input rate plus
  \<open>output_tokens / 1000000\<close> times its output rate, for every other name the same
  formula with the rates of the fallback entry (those of gpt-5-mini), and with the
  default rates \<open>calculate_cost "gpt-5" 100000 200000\<close> is \<open>7\<close>.
\<close>

theorem calculate_cost_formula:
  "calculate_cost cfg ''gpt-5'' i o' =
     (real_of_int i / 1000000) * gpt5_input_cost_per_1m cfg
       + (real_of_int o' / 1000000) * gpt5_output_cost_per_1m cfg
   \<and> calculate_cost cfg ''gpt-5-mini'' i o' =
     (real_of_int i / 1000000) * gpt5_mini_input_cost_per_1m cfg
       + (real_of_int o' / 1000000) * gpt5_mini_output_cost_per_1m cfg
   \<and> calculate_cost cfg ''gpt-realtime'' i o' =
     (real_of_int i / 1000000) * gpt_realtime_input_cost_per_1m cfg
       + (real_of_int o' / 1000000) * gpt_realtime_output_cost_per_1m cfg
   \<and> (m \<notin> {''gpt-5'', ''gpt-5-mini'', ''gpt-realtime''} \<longrightarrow>
        calculate_cost cfg m i o' =
          (real_of_int i / 1000000) * gpt5_mini_input_cost_per_1m cfg
            + (real_of_int o' / 1000000) * gpt5_mini_output_cost_per_1m cfg)
   \<and> calculate_cost default_config ''gpt-5'' 100000 200000 = 7"
  by (simp add: calculate_cost_def default_config_def)

theorem calculate_cost_formula_witness:
  "''gpt-4'' \<notin> {''gpt-5'', ''gpt-5-mini'', ''gpt-realtime''}
   \<and> calculate_cost default_config ''gpt-4'' 1000000 500000 = 21 / 2
   \<and> calculate_cost default_config ''gpt-5-mini'' 1000000 500000 = 21 / 2
   \<and> calculate_cost default_config ''gpt-realtime'' 50000 100000 = 25"
  using calculate_cost_formula [of default_config 1000000 500000 "''gpt-4''"]
        calculate_cost_formula [of default_config 50000 100000 "''gpt-4''"]
  by (simp add: default_config_def)


section \<open>Frame lemmas\<close>

lemma redis_try_fields [simp]:
  "config (redis_try e cs s) = config s"
  "redis_client (redis_try e cs s) = redis_client s"
  "session_costs (redis_try e cs s) = session_costs s"
  "session_tokens (redis_try e cs s) = session_tokens s"
  "session_start_times (redis_try e cs s) = session_start_times s"
  "circuit_breaker_active (redis_try e cs s) = circuit_breaker_active s"
  "circuit_breaker_reset_time (redis_try e cs s) = circuit_breaker_reset_time s"
  "budget_exceeded (redis_try e cs s) = budget_exceeded s"
  "api_cost_total (redis_try e cs s) = api_cost_total s"
  "token_usage (redis_try e cs s) = token_usage s"
  "active_sessions (redis_try e cs s) = active_sessions s"
  "session_duration (redis_try e cs s) = session_duration s"
  by (induction cs arbitrary: s) (simp_all add: Let_def)

lemma check_budget_fields [simp]:
  "config (snd (check_budget e sid c s)) = config s"
  "redis_client (snd (check_budget e sid c s)) = redis_client s"
  "session_costs (snd (check_budget e sid c s)) = session_costs s"
  "session_tokens (snd (check_budget e sid c s)) = session_tokens s"
  "session_start_times (snd (check_budget e sid c s)) = session_start_times s"
  "circuit_breaker_active (snd (check_budget e sid c s)) = circuit_breaker_active s"
  "circuit_breaker_reset_time (snd (check_budget e sid c s)) = circuit_breaker_reset_time s"
  "redis_calls (snd (check_budget e sid c s)) = redis_calls s"
  by (simp_all add: check_budget_def Let_def split: option.splits prod.splits)

lemma track_usage_fields [simp]:
  "config (snd (track_usage e sid m i k s)) = config s"
  "redis_client (snd (track_usage e sid m i k s)) = redis_client s"
  "session_start_times (snd (track_usage e sid m i k s)) = session_start_times s"
  "circuit_breaker_active (snd (track_usage e sid m i k s)) = circuit_breaker_active s"
  "circuit_breaker_reset_time (snd (track_usage e sid m i k s)) = circuit_breaker_reset_time s"
  by (simp_all add: track_usage_def counter_inc_def Let_def split_beta)

lemma track_usage_ledger:
  "session_costs (snd (track_usage e sid m i k s)) =
     (session_costs s)(sid \<mapsto> (case session_costs s sid of Some c \<Rightarrow> c | None \<Rightarrow> 0)
                                + calculate_cost (config s) m i k)"
  "session_tokens (snd (track_usage e sid m i k s)) =
     (session_tokens s)(sid \<mapsto>
        (case session_tokens s sid of
           Some t \<Rightarrow> \<lparr>tokens_input = tokens_input t + i, tokens_output = tokens_output t + k\<rparr>
         | None \<Rightarrow> \<lparr>tokens_input = i, tokens_output = k\<rparr>))"
  by (simp_all add: track_usage_def counter_inc_def Let_def split_beta split: option.splits)

lemma check_budget_fst_cong:
  "config s = config s' \<Longrightarrow> session_start_times s sid = session_start_times s' sid \<Longrightarrow>
   circuit_breaker_active s = circuit_breaker_active s' \<Longrightarrow>
   fst (check_budget e sid c s) = fst (check_budget e sid c s')"
  by (simp add: check_budget_def Let_def split_beta)

lemma check_budget_fst_env:
  "utcnow e = utcnow e' \<Longrightarrow> fst (check_budget e sid c s) = fst (check_budget e' sid c s)"
  by (simp add: check_budget_def Let_def split_beta split: option.splits)

lemma track_usage_result:
  "fst (track_usage e sid m i k s) =
     (if calculate_cost (config s) m i k < 0 \<or> i < 0 \<or> k < 0 then Inl ValueError
      else Inr (budget_status.extend
                  (fst (check_budget e sid (new_session_cost s sid m i k) s))
                  \<lparr> res_session_id = sid, res_model = m, res_input_tokens = i,
                    res_output_tokens = k, call_cost = calculate_cost (config s) m i k,
                    session_cost = new_session_cost s sid m i k \<rparr>))"
proof (cases "calculate_cost (config s) m i k < 0 \<or> i < 0 \<or> k < 0")
  case True
  then show ?thesis
    by (auto simp add: track_usage_def counter_inc_def Let_def split_beta)
next
  case False
  then show ?thesis
    apply (simp add: track_usage_def counter_inc_def Let_def split_beta new_session_cost_def)
    apply (intro conjI impI arg_cong2 [where f = budget_status.extend] check_budget_fst_cong)
         apply simp_all
    done
qed

section \<open>Negative counts and unknown models\<close>

text \<open>
  Claim C7. The claim: a negative token count contributes zero cost, so that
  \<open>calculate_cost m i k = calculate_cost m (max i 0) (max k 0)\<close> and the cost is never
  negative. The code multiplies the count as it is: one million negative input tokens of
  gpt-5 at the default rates cost \<open>- 10\<close>, while the clamped call costs \<open>0\<close>.
\<close>

theorem calculate_cost_negative_tokens:
  "calculate_cost default_config ''gpt-5'' (- 1000000) 0 = - 10
   \<and> calculate_cost default_config ''gpt-5'' (max (- 1000000) 0) (max 0 0) = 0"
  by (simp add: calculate_cost_def default_config_def)

text \<open>
  Claim C8. For a model name other than the three of the pricing table, the cost is the
  one computed from the fallback entry, the rates of gpt-5-mini, whatever the token
  counts; \<open>calculate_cost\<close> has no failing branch.
\<close>

theorem calculate_cost_unknown_model:
  assumes "m \<noteq> ''gpt-5''" and "m \<noteq> ''gpt-5-mini''" and "m \<noteq> ''gpt-realtime''"
  shows "calculate_cost cfg m i k =
           (real_of_int i / 1000000) * gpt5_mini_input_cost_per_1m cfg
             + (real_of_int k / 1000000) * gpt5_mini_output_cost_per_1m cfg
         \<and> calculate_cost cfg m i k = calculate_cost cfg ''gpt-5-mini'' i k"
  using assms by (simp add: calculate_cost_def)

theorem calculate_cost_unknown_model_witness:
  "calculate_cost default_config ''unknown-model'' 100000 100000 = 9 / 5
   \<and> calculate_cost default_config ''unknown-model'' 100000 100000
       = calculate_cost default_config ''gpt-5-mini'' 100000 100000"
proof -
  have a: "''unknown-model'' \<noteq> ''gpt-5''" by simp
  have b: "''unknown-model'' \<noteq> ''gpt-5-mini''" by simp
  have c: "''unknown-model'' \<noteq> ''gpt-realtime''" by simp
  show ?thesis
    using calculate_cost_unknown_model [OF a b c, of default_config 100000 100000]
    by (simp add: default_config_def)
qed

section \<open>Admission check\<close>

text \<open>
  Claim C1. The verdict of \<open>check_budget\<close> is the conjunction of: the cost strictly below
  the session cap, the elapsed time strictly below the duration cap (true for a session
  with no start time), and the breaker not active. A cost equal to the cap fails, an
  elapsed time equal to the cap fails. The remaining budget is \<open>max 0 (cap - cost)\<close>, the
  remaining duration is \<open>max 0 (cap - elapsed)\<close>, and for a session without a start time
  the whole duration cap is reported.
\<close>

theorem check_budget_verdict:
  "budget_ok (fst (check_budget e sid c s)) =
     (c < max_session_cost_usd (config s)
      \<and> (case session_start_times s sid of
            None \<Rightarrow> True
          | Some started \<Rightarrow>
              utcnow e - started < real_of_int (max_session_duration_minutes (config s) * 60))
      \<and> \<not> circuit_breaker_active s)
   \<and> \<not> budget_ok (fst (check_budget e sid (max_session_cost_usd (config s)) s))
   \<and> (session_start_times s sid = Some started
        \<and> utcnow e - started = real_of_int (max_session_duration_minutes (config s) * 60)
        \<longrightarrow> \<not> budget_ok (fst (check_budget e sid c s)))
   \<and> remaining_budget_usd (fst (check_budget e sid c s))
        = max 0 (max_session_cost_usd (config s) - c)
   \<and> remaining_duration_seconds (fst (check_budget e sid c s))
        = (case session_start_times s sid of
             None \<Rightarrow> max 0 (real_of_int (max_session_duration_minutes (config s) * 60))
           | Some started \<Rightarrow>
               max 0 (real_of_int (max_session_duration_minutes (config s) * 60)
                        - (utcnow e - started)))
   \<and> (session_start_times s sid = None \<and> 0 \<le> max_session_duration_minutes (config s)
        \<longrightarrow> remaining_duration_seconds (fst (check_budget e sid c s))
              = real_of_int (max_session_duration_minutes (config s) * 60))
   \<and> circuit_breaker_active_reported (fst (check_budget e sid c s)) = circuit_breaker_active s"
  by (simp add: check_budget_def Let_def split_beta split: option.splits)

theorem check_budget_verdict_witness:
  "session_start_times (start_session (at_time 0) ''a'' (init_tracker False default_config)) ''a''
     = Some 0
   \<and> utcnow (at_time 1800) - 0
       = real_of_int (max_session_duration_minutes
           (config (start_session (at_time 0) ''a'' (init_tracker False default_config))) * 60)
   \<and> \<not> budget_ok (fst (check_budget (at_time 1800) ''a'' 1
         (start_session (at_time 0) ''a'' (init_tracker False default_config))))
   \<and> budget_ok (fst (check_budget (at_time 1799) ''a'' 1
         (start_session (at_time 0) ''a'' (init_tracker False default_config))))
   \<and> session_start_times (start_session (at_time 0) ''a'' (init_tracker False default_config)) ''b''
       = None
   \<and> 0 \<le> max_session_duration_minutes
           (config (start_session (at_time 0) ''a'' (init_tracker False default_config)))
   \<and> remaining_duration_seconds (fst (check_budget (at_time 1800) ''b'' 6
         (start_session (at_time 0) ''a'' (init_tracker False default_config)))) = 1800
   \<and> remaining_budget_usd (fst (check_budget (at_time 1800) ''b'' 6
         (start_session (at_time 0) ''a'' (init_tracker False default_config)))) = 0"
  using check_budget_verdict
          [of "at_time 1800" "''a''" 1
              "start_session (at_time 0) ''a'' (init_tracker False default_config)" 0]
        check_budget_verdict
          [of "at_time 1799" "''a''" 1
              "start_session (at_time 0) ''a'' (init_tracker False default_config)" 0]
        check_budget_verdict
          [of "at_time 1800" "''b''" 6
              "start_session (at_time 0) ''a'' (init_tracker False default_config)" 0]
  by (simp add: start_session_def init_tracker_def default_config_def at_time_def Let_def)

section \<open>Ending an unknown session\<close>

text \<open>
  Claim C10. For a session id with no recorded start time \<open>end_session\<close> returns the
  tracker as it was: ledger dictionaries, active-session gauge, duration observations and
  the list of Redis commands are all unchanged.
\<close>

theorem end_session_unknown_noop:
  "session_start_times s sid = None \<Longrightarrow> end_session e sid s = s"
  by (simp add: end_session_def)

theorem end_session_unknown_noop_witness:
  "session_start_times (start_session (at_time 0) ''a'' (init_tracker True default_config)) ''b''
     = None
   \<and> end_session (at_time 5) ''b'' (start_session (at_time 0) ''a'' (init_tracker True default_config))
       = start_session (at_time 0) ''a'' (init_tracker True default_config)"
proof -
  have h: "session_start_times
             (start_session (at_time 0) ''a'' (init_tracker True default_config)) ''b'' = None"
    by (simp add: start_session_def init_tracker_def Let_def)
  show ?thesis
    using h end_session_unknown_noop [OF h, of "at_time 5"] by simp
qed

section \<open>Circuit breaker\<close>

lemma start_session_breaker [simp]:
  "circuit_breaker_active (start_session e sid s) = circuit_breaker_active s"
  "circuit_breaker_reset_time (start_session e sid s) = circuit_breaker_reset_time s"
  by (simp_all add: start_session_def Let_def)

lemma end_session_breaker [simp]:
  "circuit_breaker_active (end_session e sid s) = circuit_breaker_active s"
  "circuit_breaker_reset_time (end_session e sid s) = circuit_breaker_reset_time s"
  by (simp_all add: end_session_def Let_def split: option.splits)

lemma step_keeps_breaker:
  "op \<noteq> ActivateCircuitBreaker \<Longrightarrow> op \<noteq> CheckCircuitBreaker \<Longrightarrow>
   circuit_breaker_active (step (e, op) s) = circuit_breaker_active s
   \<and> circuit_breaker_reset_time (step (e, op) s) = circuit_breaker_reset_time s"
  by (cases op) simp_all

lemma check_circuit_breaker_cases:
  "check_circuit_breaker e s =
     (if circuit_breaker_active s \<and> (\<exists>r. circuit_breaker_reset_time s = Some r \<and> r \<le> utcnow e)
      then s\<lparr>circuit_breaker_active := False, circuit_breaker_reset_time := None\<rparr>
      else s)"
  by (simp add: check_circuit_breaker_def split: option.splits)

lemma step_breaker_paired:
  "circuit_breaker_active s = (circuit_breaker_reset_time s \<noteq> None) \<Longrightarrow>
   circuit_breaker_active (step (e, op) s) = (circuit_breaker_reset_time (step (e, op) s) \<noteq> None)"
  by (cases op)
     (simp_all add: activate_circuit_breaker_def check_circuit_breaker_def split: option.splits)

lemma run_breaker_paired:
  "circuit_breaker_active s = (circuit_breaker_reset_time s \<noteq> None) \<Longrightarrow>
   circuit_breaker_active (run ops s) = (circuit_breaker_reset_time (run ops s) \<noteq> None)"
proof (induction ops arbitrary: s)
  case Nil
  then show ?case by simp
next
  case (Cons x xs)
  obtain e op where x: "x = (e, op)" by (cases x)
  show ?case
    unfolding x run.simps
    by (rule Cons.IH) (rule step_breaker_paired [OF Cons.prems])
qed

lemma step_breaker_invariant:
  "breaker_invariant s \<Longrightarrow> breaker_invariant (step (e, op) s)"
  by (cases op)
     (simp_all add: breaker_invariant_def activate_circuit_breaker_def
        check_circuit_breaker_def split: option.splits)

lemma run_breaker_invariant:
  "breaker_invariant s \<Longrightarrow> breaker_invariant (run ops s)"
proof (induction ops arbitrary: s)
  case Nil
  then show ?case by simp
next
  case (Cons x xs)
  obtain e op where x: "x = (e, op)" by (cases x)
  show ?case
    unfolding x run.simps
    by (rule Cons.IH) (rule step_breaker_invariant [OF Cons.prems])
qed

text \<open>
  Claim C4. The breaker invariant (not active implies no reset time) holds initially, is
  preserved by every operation and hence holds after every history; after a history the
  breaker is active exactly when a reset time is set. Activation sets the breaker active
  with reset time now plus the cooldown, and a second activation replaces the reset time
  by a window from its own call time. \<open>check_circuit_breaker\<close> clears both fields exactly
  when the breaker is active and the reset time has been reached, and changes nothing
  otherwise; the operations other than these two leave both fields as they are.
\<close>

theorem circuit_breaker_state_machine:
  "breaker_invariant (init_tracker client cfg)
   \<and> (breaker_invariant s \<longrightarrow> breaker_invariant (step (e, op) s))
   \<and> breaker_invariant (run ops (init_tracker client cfg))
   \<and> circuit_breaker_active (run ops (init_tracker client cfg))
       = (circuit_breaker_reset_time (run ops (init_tracker client cfg)) \<noteq> None)
   \<and> circuit_breaker_active (activate_circuit_breaker e s)
   \<and> circuit_breaker_reset_time (activate_circuit_breaker e s)
       = Some (utcnow e + real_of_int (circuit_breaker_reset_minutes (config s)) * 60)
   \<and> circuit_breaker_reset_time (activate_circuit_breaker e' (activate_circuit_breaker e s))
       = Some (utcnow e' + real_of_int (circuit_breaker_reset_minutes (config s)) * 60)
   \<and> check_circuit_breaker e s =
       (if circuit_breaker_active s
           \<and> (\<exists>r. circuit_breaker_reset_time s = Some r \<and> r \<le> utcnow e)
        then s\<lparr>circuit_breaker_active := False, circuit_breaker_reset_time := None\<rparr>
        else s)
   \<and> (op \<noteq> ActivateCircuitBreaker \<and> op \<noteq> CheckCircuitBreaker \<longrightarrow>
        circuit_breaker_active (step (e, op) s) = circuit_breaker_active s
        \<and> circuit_breaker_reset_time (step (e, op) s) = circuit_breaker_reset_time s)"
proof -
  have init: "breaker_invariant (init_tracker client cfg)"
    by (simp add: breaker_invariant_def init_tracker_def)
  have paired: "circuit_breaker_active (init_tracker client cfg)
                  = (circuit_breaker_reset_time (init_tracker client cfg) \<noteq> None)"
    by (simp add: init_tracker_def)
  have act: "circuit_breaker_active (activate_circuit_breaker e s)"
    "circuit_breaker_reset_time (activate_circuit_breaker e s)
       = Some (utcnow e + real_of_int (circuit_breaker_reset_minutes (config s)) * 60)"
    "circuit_breaker_reset_time (activate_circuit_breaker e' (activate_circuit_breaker e s))
       = Some (utcnow e' + real_of_int (circuit_breaker_reset_minutes (config s)) * 60)"
    by (simp_all add: activate_circuit_breaker_def)
  show ?thesis
    using init step_breaker_invariant [of s e op] run_breaker_invariant [OF init, of ops]
      run_breaker_paired [OF paired, of ops] act
      check_circuit_breaker_cases [of e s] step_keeps_breaker [of op e s]
    by blast
qed

theorem circuit_breaker_state_machine_witness:
  "breaker_invariant (activate_circuit_breaker (at_time 0) (init_tracker False default_config))
   \<and> breaker_invariant
        (step (at_time 3600, CheckCircuitBreaker)
           (activate_circuit_breaker (at_time 0) (init_tracker False default_config)))
   \<and> StartSession ''a'' \<noteq> ActivateCircuitBreaker \<and> StartSession ''a'' \<noteq> CheckCircuitBreaker
   \<and> circuit_breaker_active
        (step (at_time 3599, StartSession ''a'')
           (activate_circuit_breaker (at_time 0) (init_tracker False default_config)))
   \<and> circuit_breaker_active (activate_circuit_breaker (at_time 0) (init_tracker False default_config))
   \<and> circuit_breaker_reset_time
        (activate_circuit_breaker (at_time 0) (init_tracker False default_config)) = Some 3600
   \<and> \<not> circuit_breaker_active
          (check_circuit_breaker (at_time 3600)
             (activate_circuit_breaker (at_time 0) (init_tracker False default_config)))
   \<and> circuit_breaker_active
        (check_circuit_breaker (at_time 3599)
           (activate_circuit_breaker (at_time 0) (init_tracker False default_config)))"
  using circuit_breaker_state_machine
          [where s = "activate_circuit_breaker (at_time 0) (init_tracker False default_config)"
             and e = "at_time 3600" and op = CheckCircuitBreaker and client = False
             and cfg = default_config and ops = "[]" and e' = "at_time 0"]
        circuit_breaker_state_machine
          [where s = "activate_circuit_breaker (at_time 0) (init_tracker False default_config)"
             and e = "at_time 3599" and op = "StartSession ''a''" and client = False
             and cfg = default_config and ops = "[]" and e' = "at_time 0"]
  by (simp add: breaker_invariant_def activate_circuit_breaker_def init_tracker_def
        default_config_def at_time_def check_circuit_breaker_def start_session_def Let_def)

section \<open>Ledger entries\<close>

lemma start_session_ledger [simp]:
  "session_start_times (start_session e x s) = (session_start_times s)(x \<mapsto> utcnow e)"
  "session_costs (start_session e x s) = (session_costs s)(x \<mapsto> 0)"
  "session_tokens (start_session e x s) = session_tokens s"
  "config (start_session e x s) = config s"
  by (simp_all add: start_session_def Let_def)

lemma end_session_ledger:
  "session_start_times (end_session e x s) = (session_start_times s)(x := None)"
  "session_costs (end_session e x s) =
     (if session_start_times s x = None then session_costs s else (session_costs s)(x := None))"
  "config (end_session e x s) = config s"
  by (auto simp add: end_session_def Let_def split: option.splits)

lemma breaker_ops_ledger [simp]:
  "session_start_times (activate_circuit_breaker e s) = session_start_times s"
  "session_costs (activate_circuit_breaker e s) = session_costs s"
  "session_start_times (check_circuit_breaker e s) = session_start_times s"
  "session_costs (check_circuit_breaker e s) = session_costs s"
  by (simp_all add: activate_circuit_breaker_def check_circuit_breaker_def split: option.splits)








section \<open>Isolation\<close>

lemma step_other_frame:
  assumes "usage_by_other sid x"
  shows "config (step x s) = config s"
    and "session_costs (step x s) sid = session_costs s sid"
    and "session_tokens (step x s) sid = session_tokens s sid"
    and "session_start_times (step x s) = session_start_times s"
    and "circuit_breaker_active (step x s) = circuit_breaker_active s"
proof -
  obtain e op where x: "x = (e, op)" by (cases x)
  from assms obtain other m i k where op: "op = TrackUsage other m i k" and ne: "other \<noteq> sid"
    unfolding x by (cases op) simp_all
  show "config (step x s) = config s"
    and "session_costs (step x s) sid = session_costs s sid"
    and "session_tokens (step x s) sid = session_tokens s sid"
    and "session_start_times (step x s) = session_start_times s"
    and "circuit_breaker_active (step x s) = circuit_breaker_active s"
    using ne by (simp_all add: x op track_usage_ledger)
qed

lemma run_others_frame:
  "list_all (usage_by_other sid) ops \<Longrightarrow>
   config (run ops s) = config s
   \<and> session_costs (run ops s) sid = session_costs s sid
   \<and> session_tokens (run ops s) sid = session_tokens s sid
   \<and> session_start_times (run ops s) = session_start_times s
   \<and> circuit_breaker_active (run ops s) = circuit_breaker_active s"
proof (induction ops arbitrary: s)
  case Nil
  then show ?case by simp
next
  case (Cons x xs)
  then have x: "usage_by_other sid x" and xs: "list_all (usage_by_other sid) xs"
    by simp_all
  show ?case
    using Cons.IH [OF xs, of "step x s"] step_other_frame [OF x, of s] by simp
qed

lemma track_usage_result_cong:
  assumes "config s' = config s"
    and "session_costs s' sid = session_costs s sid"
    and "session_start_times s' sid = session_start_times s sid"
    and "circuit_breaker_active s' = circuit_breaker_active s"
  shows "fst (track_usage e sid m i k s') = fst (track_usage e sid m i k s)"
proof -
  have c: "new_session_cost s' sid m i k = new_session_cost s sid m i k"
    using assms by (simp add: new_session_cost_def)
  have b: "fst (check_budget e sid c s') = fst (check_budget e sid c s)" for c
    using assms by (intro check_budget_fst_cong) simp_all
  show ?thesis
    unfolding track_usage_result c b using assms(1) by simp
qed

lemma end_session_tokens:
  "session_tokens (end_session e x s) =
     (if session_start_times s x = None then session_tokens s else (session_tokens s)(x := None))"
  by (auto simp add: end_session_def Let_def split: option.splits)

lemma breaker_ops_frame [simp]:
  "config (activate_circuit_breaker e s) = config s"
  "session_tokens (activate_circuit_breaker e s) = session_tokens s"
  "config (check_circuit_breaker e s) = config s"
  "session_tokens (check_circuit_breaker e s) = session_tokens s"
  by (simp_all add: activate_circuit_breaker_def check_circuit_breaker_def split: option.splits)

lemma step_same_for:
  assumes "same_for sid s t"
  shows "same_for sid (step x s) (step x t)"
proof -
  obtain e op where x: "x = (e, op)" by (cases x)
  show ?thesis
  proof (cases op)
    case (StartSession y)
    with assms show ?thesis by (simp add: x same_for_def)
  next
    case (EndSession y)
    with assms show ?thesis
      by (simp add: x same_for_def end_session_ledger end_session_tokens)
  next
    case (TrackUsage y m i k)
    with assms show ?thesis by (auto simp add: x same_for_def track_usage_ledger)
  next
    case (CheckBudget y c)
    with assms show ?thesis by (simp add: x same_for_def)
  next
    case ActivateCircuitBreaker
    with assms show ?thesis by (simp add: x same_for_def activate_circuit_breaker_def)
  next
    case CheckCircuitBreaker
    with assms show ?thesis
      by (simp add: x same_for_def check_circuit_breaker_def split: option.splits)
  qed
qed

lemma step_other_same_for:
  assumes "usage_by_other sid x" and "same_for sid s t"
  shows "same_for sid (step x s) t"
proof -
  obtain e op where x: "x = (e, op)" by (cases x)
  from assms(1) obtain other m i k where op: "op = TrackUsage other m i k"
    unfolding x by (cases op) simp_all
  have "circuit_breaker_reset_time (step x s) = circuit_breaker_reset_time s"
    by (simp add: x op)
  then show ?thesis
    using step_other_frame [OF assms(1), of s] assms(2) by (simp add: same_for_def)
qed

lemma run_without_others:
  "same_for sid s t \<Longrightarrow> same_for sid (run ops s) (run (without_others sid ops) t)"
proof (induction ops arbitrary: s t)
  case Nil
  then show ?case by simp
next
  case (Cons x xs)
  show ?case
  proof (cases "usage_by_other sid x")
    case True
    then show ?thesis
      using Cons.IH [OF step_other_same_for [OF True Cons.prems]] by simp
  next
    case False
    then show ?thesis
      using Cons.IH [OF step_same_for [OF Cons.prems, of x]] by simp
  qed
qed

lemma same_for_result:
  assumes "same_for sid s t"
  shows "fst (track_usage e sid m i k s) = fst (track_usage e sid m i k t)"
  using assms by (intro track_usage_result_cong) (simp_all add: same_for_def)

text \<open>
  Claim C9. A \<open>track_usage\<close> call for session \<open>id1\<close> leaves the cost, the token counters
  and the start time recorded for a different session \<open>id2\<close> as they were, and what a
  \<open>track_usage\<close> call for \<open>id2\<close> returns (its session cost and verdict included) is the same
  after that call, and after any block of \<open>track_usage\<close> calls for other sessions, as
  before it. More generally, for every history of operations in which calls of other
  sessions are interleaved with those of \<open>id2\<close>, the ledger entries of \<open>id2\<close> and the result
  of its next \<open>track_usage\<close> call are those of the history with all \<open>track_usage\<close> calls of
  other sessions removed: they do not depend on the usage of any other session.
\<close>

theorem track_usage_isolation:
  assumes "id1 \<noteq> id2" and "list_all (usage_by_other id2) ops"
  shows "session_costs (snd (track_usage e1 id1 m1 i1 k1 s)) id2 = session_costs s id2
         \<and> session_tokens (snd (track_usage e1 id1 m1 i1 k1 s)) id2 = session_tokens s id2
         \<and> session_start_times (snd (track_usage e1 id1 m1 i1 k1 s)) id2
             = session_start_times s id2
         \<and> fst (track_usage e id2 m i k (snd (track_usage e1 id1 m1 i1 k1 s)))
             = fst (track_usage e id2 m i k s)
         \<and> fst (track_usage e id2 m i k (run ops s)) = fst (track_usage e id2 m i k s)
         \<and> session_costs (run hist s) id2 = session_costs (run (without_others id2 hist) s) id2
         \<and> session_tokens (run hist s) id2 = session_tokens (run (without_others id2 hist) s) id2
         \<and> session_start_times (run hist s) id2
             = session_start_times (run (without_others id2 hist) s) id2
         \<and> fst (track_usage e id2 m i k (run hist s))
             = fst (track_usage e id2 m i k (run (without_others id2 hist) s))"
proof -
  have one: "usage_by_other id2 (e1, TrackUsage id1 m1 i1 k1)"
    using assms(1) by simp
  have f1: "fst (track_usage e id2 m i k (snd (track_usage e1 id1 m1 i1 k1 s)))
              = fst (track_usage e id2 m i k s)"
    using step_other_frame [OF one, of s] by (intro track_usage_result_cong) simp_all
  have f2: "fst (track_usage e id2 m i k (run ops s)) = fst (track_usage e id2 m i k s)"
    using run_others_frame [OF assms(2), of s] by (intro track_usage_result_cong) simp_all
  have refl: "same_for id2 s s"
    by (simp add: same_for_def)
  have h: "same_for id2 (run hist s) (run (without_others id2 hist) s)"
    by (rule run_without_others [OF refl])
  have f3: "fst (track_usage e id2 m i k (run hist s))
              = fst (track_usage e id2 m i k (run (without_others id2 hist) s))"
    by (rule same_for_result [OF h])
  show ?thesis
    using step_other_frame [OF one, of s] f1 f2 f3 h by (simp add: same_for_def)
qed

theorem track_usage_isolation_witness:
  "''a'' \<noteq> ''b''
   \<and> list_all (usage_by_other ''b'') [(at_time 1, TrackUsage ''a'' ''gpt-5'' 50000 150000)]
   \<and> without_others ''b''
        [(at_time 0, StartSession ''a''), (at_time 0, StartSession ''b''),
         (at_time 1, TrackUsage ''a'' ''gpt-5'' 50000 150000),
         (at_time 2, TrackUsage ''b'' ''gpt-5-mini'' 10000 20000)]
       = [(at_time 0, StartSession ''a''), (at_time 0, StartSession ''b''),
          (at_time 2, TrackUsage ''b'' ''gpt-5-mini'' 10000 20000)]
   \<and> verdict (fst (track_usage (at_time 2) ''b'' ''gpt-5-mini'' 10000 20000
        (run [(at_time 1, TrackUsage ''a'' ''gpt-5'' 50000 150000)]
           (init_tracker False default_config)))) = Inr True
   \<and> reported_session_cost (fst (track_usage (at_time 2) ''b'' ''gpt-5-mini'' 10000 20000
        (run [(at_time 1, TrackUsage ''a'' ''gpt-5'' 50000 150000)]
           (init_tracker False default_config)))) = Inr (33 / 100)
   \<and> session_costs
        (run [(at_time 0, StartSession ''a''), (at_time 0, StartSession ''b''),
              (at_time 1, TrackUsage ''a'' ''gpt-5'' 50000 150000),
              (at_time 2, TrackUsage ''b'' ''gpt-5-mini'' 10000 20000)]
           (init_tracker False default_config)) ''b'' = Some (33 / 100)
   \<and> verdict (fst (track_usage (at_time 3) ''b'' ''gpt-5-mini'' 10000 20000
        (run [(at_time 0, StartSession ''a''), (at_time 0, StartSession ''b''),
              (at_time 1, TrackUsage ''a'' ''gpt-5'' 50000 150000),
              (at_time 2, TrackUsage ''b'' ''gpt-5-mini'' 10000 20000)]
           (init_tracker False default_config)))) = Inr True
   \<and> reported_session_cost (fst (track_usage (at_time 3) ''b'' ''gpt-5-mini'' 10000 20000
        (run [(at_time 0, StartSession ''a''), (at_time 0, StartSession ''b''),
              (at_time 1, TrackUsage ''a'' ''gpt-5'' 50000 150000),
              (at_time 2, TrackUsage ''b'' ''gpt-5-mini'' 10000 20000)]
           (init_tracker False default_config)))) = Inr (33 / 50)"
proof -
  have a: "''a'' \<noteq> ''b''" by simp
  have b: "list_all (usage_by_other ''b'') [(at_time 1, TrackUsage ''a'' ''gpt-5'' 50000 150000)]"
    by simp
  have c: "calculate_cost default_config ''gpt-5-mini'' 10000 20000 = 33 / 100"
    by (simp add: calculate_cost_def default_config_def)
  have d: "max_session_cost_usd default_config = 5"
    "max_session_duration_minutes default_config = 30"
    by (simp_all add: default_config_def)
  have i: "config (init_tracker False default_config) = default_config"
    "session_costs (init_tracker False default_config) = Map.empty"
    "session_start_times (init_tracker False default_config) = Map.empty"
    "circuit_breaker_active (init_tracker False default_config) = False"
    by (simp_all add: init_tracker_def)
  show ?thesis
    using a b
      track_usage_isolation [OF a b, of "at_time 1" "''gpt-5''" 50000 150000
        "init_tracker False default_config" "at_time 3" "''gpt-5-mini''" 10000 20000
        "[(at_time 0, StartSession ''a''), (at_time 0, StartSession ''b''),
          (at_time 1, TrackUsage ''a'' ''gpt-5'' 50000 150000),
          (at_time 2, TrackUsage ''b'' ''gpt-5-mini'' 10000 20000)]"]
    by (simp add: track_usage_result track_usage_ledger verdict_def reported_session_cost_def
          new_session_cost_def check_budget_def c d i Let_def budget_status.defs at_time_def)
qed

section \<open>Usage with negative counts\<close>

text \<open>
  Claim C3. The claim: the cumulative cost of a session never decreases over
  \<open>track_usage\<close> calls, and a verdict that went false on cost stays false. In the code, a
  session at cost \<open>10\<close> (cap \<open>5\<close>, verdict false) that receives a call with one million
  negative input tokens has its recorded cost lowered to \<open>0\<close> before the call raises, and
  the next call returns a true verdict with session cost \<open>0\<close>.
\<close>

theorem cumulative_cost_decreases:
  "verdict (fst (track_usage (at_time 1) ''s'' ''gpt-5'' 1000000 0
      (run [(at_time 0, StartSession ''s'')] (init_tracker False default_config)))) = Inr False
   \<and> session_costs
        (run [(at_time 0, StartSession ''s''), (at_time 1, TrackUsage ''s'' ''gpt-5'' 1000000 0)]
           (init_tracker False default_config)) ''s'' = Some 10
   \<and> fst (track_usage (at_time 2) ''s'' ''gpt-5'' (- 1000000) 0
        (run [(at_time 0, StartSession ''s''), (at_time 1, TrackUsage ''s'' ''gpt-5'' 1000000 0)]
           (init_tracker False default_config))) = Inl ValueError
   \<and> session_costs
        (run [(at_time 0, StartSession ''s''), (at_time 1, TrackUsage ''s'' ''gpt-5'' 1000000 0),
              (at_time 2, TrackUsage ''s'' ''gpt-5'' (- 1000000) 0)]
           (init_tracker False default_config)) ''s'' = Some 0
   \<and> verdict (fst (track_usage (at_time 3) ''s'' ''gpt-5'' 0 0
        (run [(at_time 0, StartSession ''s''), (at_time 1, TrackUsage ''s'' ''gpt-5'' 1000000 0),
              (at_time 2, TrackUsage ''s'' ''gpt-5'' (- 1000000) 0)]
           (init_tracker False default_config)))) = Inr True
   \<and> reported_session_cost (fst (track_usage (at_time 3) ''s'' ''gpt-5'' 0 0
        (run [(at_time 0, StartSession ''s''), (at_time 1, TrackUsage ''s'' ''gpt-5'' 1000000 0),
              (at_time 2, TrackUsage ''s'' ''gpt-5'' (- 1000000) 0)]
           (init_tracker False default_config)))) = Inr 0"
proof -
  have c: "calculate_cost default_config ''gpt-5'' 1000000 0 = 10"
    "calculate_cost default_config ''gpt-5'' (- 1000000) 0 = - 10"
    "calculate_cost default_config ''gpt-5'' 0 0 = 0"
    by (simp_all add: calculate_cost_def default_config_def)
  have d: "max_session_cost_usd default_config = 5"
    "max_session_duration_minutes default_config = 30"
    by (simp_all add: default_config_def)
  have i: "config (init_tracker False default_config) = default_config"
    "session_costs (init_tracker False default_config) = Map.empty"
    "session_start_times (init_tracker False default_config) = Map.empty"
    "circuit_breaker_active (init_tracker False default_config) = False"
    by (simp_all add: init_tracker_def)
  show ?thesis
    by (simp add: track_usage_result track_usage_ledger verdict_def reported_session_cost_def
          new_session_cost_def check_budget_def Let_def budget_status.defs at_time_def c d i)
qed

text \<open>
  Claim C6. The claim: \<open>track_usage\<close> never raises, whatever the token counts. In the code
  a call with a negative input or output count ends in the \<^verbatim>\<open>ValueError\<close> of a Prometheus
  counter.
\<close>

theorem track_usage_raises_on_negative_count:
  "fst (track_usage (at_time 1) ''s'' ''gpt-5'' (- 1) 0
          (start_session (at_time 0) ''s'' (init_tracker False default_config)))
     = Inl ValueError
   \<and> fst (track_usage (at_time 1) ''s'' ''gpt-5'' 1000000 (- 1)
          (start_session (at_time 0) ''s'' (init_tracker False default_config)))
     = Inl ValueError"
  by (simp add: track_usage_result)

section \<open>Usage with non-negative counts\<close>

text \<open>
  With non-negative counts and rates the cost of a call is non-negative, the result of
  \<open>track_usage\<close> does not depend on Redis, and a session at or above its cap stays there
  with a verdict that is not true.
\<close>

lemma calculate_cost_nonneg:
  assumes "0 \<le> i" and "0 \<le> k"
    and "0 \<le> gpt5_input_cost_per_1m cfg" and "0 \<le> gpt5_output_cost_per_1m cfg"
    and "0 \<le> gpt5_mini_input_cost_per_1m cfg" and "0 \<le> gpt5_mini_output_cost_per_1m cfg"
    and "0 \<le> gpt_realtime_input_cost_per_1m cfg" and "0 \<le> gpt_realtime_output_cost_per_1m cfg"
  shows "0 \<le> calculate_cost cfg m i k"
  using assms by (simp add: calculate_cost_def)

lemma track_usage_redis_independent:
  "utcnow e' = utcnow e \<Longrightarrow>
   fst (track_usage e' sid m i k (s\<lparr>redis_client := b\<rparr>)) = fst (track_usage e sid m i k s)"
  using check_budget_fst_env [of e' e sid _ s]
  by (simp add: track_usage_result new_session_cost_def
        check_budget_fst_cong [of "s\<lparr>redis_client := b\<rparr>" s])

lemma track_usage_latch:
  assumes "session_costs s sid = Some c" and "max_session_cost_usd (config s) \<le> c"
    and "0 \<le> calculate_cost (config s) m i k"
  shows "verdict (fst (track_usage e sid m i k s)) \<noteq> Inr True"
    and "\<exists>c'. session_costs (snd (track_usage e sid m i k s)) sid = Some c' \<and> c \<le> c'"
  using assms
  by (simp_all add: track_usage_result track_usage_ledger verdict_def new_session_cost_def
        check_budget_def Let_def split_beta budget_status.defs)

text \<open>
  With a Redis client whose every command raises, \<open>start_session\<close> still records the session
  locally; only the first command of the block is attempted.
\<close>

lemma start_session_redis_down:
  "session_costs
     (start_session \<lparr>utcnow = 0, redis_raises = always_raises\<rparr> ''a''
        (init_tracker True default_config)) ''a'' = Some 0
   \<and> redis_calls
        (start_session \<lparr>utcnow = 0, redis_raises = always_raises\<rparr> ''a''
           (init_tracker True default_config))
       = [HSet ''session:a'' [''start_time'', ''cost'', ''input_tokens'', ''output_tokens'']]"
  by (simp add: start_session_def init_tracker_def always_raises_def session_key_def Let_def)

end
